theory Spec2Isabelle
  imports Complex_Main "HOL-Library.Word"
begin

section \<open>BAR228 BLE session: data model\<close>

text \<open>
  The development embeds \<^verbatim>\<open>custom_components/bar228_ble/bar228_ble/parser.py\<close>:
  the notification handler that decodes a telemetry frame, the wrapper
  \<^verbatim>\<open>disconnect_on_missing_services\<close>, the subscription phase \<^verbatim>\<open>_get_bar228\<close>
  and the entry point \<^verbatim>\<open>update_device\<close>.

  A coroutine is modelled as a function from the session to a result and the updated
  session. The BLE transport (bleak) is outside the repository: it is a parameter that
  answers every call made on the client, and every call is appended to a log carried
  by the session. Notifications are calls of \<^verbatim>\<open>notification_handler\<close> made by the
  transport between the operations of the session; the model has no notification
  arriving while \<^verbatim>\<open>update_device\<close> is suspended in an \<^verbatim>\<open>await\<close>.
\<close>

type_synonym byte = "8 word"

type_synonym timestamp = int

text \<open>
  The values a sensor entry holds. Python's \<^verbatim>\<open>None\<close> is a constructor of its own, so
  an unset entry differs from every number. The quotient \<^verbatim>\<open>n / 10\<close> of two Python
  integers is kept as the exact rational (the program holds the nearest double).
\<close>

datatype pyvalue = VNone | VInt int | VFloat rat | VTime timestamp

text \<open>
  The exceptions that occur. \<^verbatim>\<open>CancelledError\<close> derives from \<^verbatim>\<open>BaseException\<close> only;
  every other one derives from \<^verbatim>\<open>Exception\<close>. The two classes the module declares
  derive from \<^verbatim>\<open>BleakError\<close>.
\<close>

datatype error =
    StructError
  | AttributeError
  | NameError
  | BleakError
  | BleakCharacteristicMissing
  | BleakServiceMissing
  | TransportError
  | CancelledError

fun is_Exception :: "error \<Rightarrow> bool" where
  "is_Exception CancelledError = False"
| "is_Exception _ = True"

record BAR228Device =
  hw_version :: string
  sw_version :: string
  name :: string
  dev_identifier :: string
  address :: string
  sensors :: "string \<rightharpoonup> pyvalue"

text \<open>The dataclass defaults: empty strings and an empty dict.\<close>

definition new_BAR228Device :: BAR228Device where
  "new_BAR228Device =
     \<lparr>hw_version = '''', sw_version = '''', name = '''', dev_identifier = '''',
      address = '''', sensors = Map.empty\<rparr>"

text \<open>\<^verbatim>\<open>BLEDevice\<close>: the advertised name and the address of the peripheral.\<close>

record BLEDevice =
  ble_name :: string
  ble_address :: string

text \<open>A \<^verbatim>\<open>BleakClient\<close>, named by the address it was made for.\<close>

datatype client = Client string

text \<open>The calls the program makes on the transport, in the log's vocabulary.\<close>

datatype call =
    EstablishConnection string
  | Connect
  | IsConnected
  | StartNotify string
  | ClearCache
  | Disconnect

text \<open>
  The transport: what an awaited call raises (\<open>None\<close> when it returns), and what the
  property \<^verbatim>\<open>is_connected\<close> reads, each depending on the calls made so far.
\<close>

record transport =
  outcome :: "call list \<Rightarrow> call \<Rightarrow> error option"
  is_connected :: "call list \<Rightarrow> bool"

text \<open>
  \<^verbatim>\<open>BAR228BluetoothDeviceData\<close>. The fields \<open>is_metric\<close>, \<open>elevation\<close> and \<open>voltage\<close>
  are stored by the constructor and never read; the logger only writes debug lines.
  \<open>event\<close> is \<open>None\<close> while no \<^verbatim>\<open>asyncio.Event\<close> exists, \<open>Some False\<close> for an event that
  is not set and \<open>Some True\<close> for one that is set. \<open>calls\<close> is the log of the calls
  made on the transport, oldest first.
\<close>

record session =
  is_metric :: bool
  elevation :: "int option"
  voltage :: "rat \<times> rat"
  command_data :: "byte list option"
  bardevice :: "BAR228Device option"
  bleclient :: "client option"
  event :: "bool option"
  calls :: "call list"

definition init_session :: "int option \<Rightarrow> bool \<Rightarrow> rat \<times> rat \<Rightarrow> session" where
  "init_session elev metric volt =
     \<lparr>is_metric = metric, elevation = elev, voltage = volt, command_data = None,
      bardevice = None, bleclient = None, event = None, calls = []\<rparr>"

definition BAR228_CHARACTERISTIC_UUID_WRITE1 :: string where
  "BAR228_CHARACTERISTIC_UUID_WRITE1 = ''905e8e01-81e9-4796-9b75-b95cf5e30c0b''"

definition BAR228_CHARACTERISTIC_UUID_WRITE2 :: string where
  "BAR228_CHARACTERISTIC_UUID_WRITE2 = ''905e8e02-81e9-4796-9b75-b95cf5e30c0b''"

definition BAR228_CHARACTERISTIC_UUID_WRITE3 :: string where
  "BAR228_CHARACTERISTIC_UUID_WRITE3 = ''905e8e03-81e9-4796-9b75-b95cf5e30c0b''"

definition BAR228_CHARACTERISTIC_UUID_WRITE4 :: string where
  "BAR228_CHARACTERISTIC_UUID_WRITE4 = ''905e8e30-81e9-4796-9b75-b95cf5e30c0b''"

definition BAR228_CHARACTERISTIC_UUID_WRITE5 :: string where
  "BAR228_CHARACTERISTIC_UUID_WRITE5 = ''905e8e34-81e9-4796-9b75-b95cf5e30c0b''"

section \<open>The frame decoder\<close>

text \<open>A slice \<^verbatim>\<open>data[i:j]\<close> with \<open>0 \<le> i \<le> j\<close>: it is shorter when the data is.\<close>

definition slice :: "nat \<Rightarrow> nat \<Rightarrow> 'a list \<Rightarrow> 'a list" where
  "slice i j xs = take (j - i) (drop i xs)"

text \<open>
  \<^verbatim>\<open>struct.unpack("<H", b)[0]\<close> and \<^verbatim>\<open>struct.unpack("@B", b)[0]\<close>: the buffer must
  have exactly the size of the format, or \<^verbatim>\<open>struct.error\<close> is raised.
\<close>

fun unpack_H :: "byte list \<Rightarrow> error + nat" where
  "unpack_H [lo, hi] = Inr (unat lo + 256 * unat hi)"
| "unpack_H _ = Inl StructError"

fun unpack_B :: "byte list \<Rightarrow> error + nat" where
  "unpack_B [b] = Inr (unat b)"
| "unpack_B _ = Inl StructError"

text \<open>
  \<^verbatim>\<open>self._bardevice.sensors[key] = v\<close>, the right-hand side already evaluated: it
  raises \<^verbatim>\<open>AttributeError\<close> when \<^verbatim>\<open>_bardevice\<close> is \<^verbatim>\<open>None\<close>.
\<close>

definition store_sensor :: "string \<Rightarrow> pyvalue \<Rightarrow> session \<Rightarrow> error + session" where
  "store_sensor key v s =
     (case bardevice s of
        None \<Rightarrow> Inl AttributeError
      | Some d \<Rightarrow> Inr (s\<lparr>bardevice := Some (d\<lparr>sensors := (sensors d)(key \<mapsto> v)\<rparr>)\<rparr>))"

text \<open>
  The body of \<^verbatim>\<open>if sender.handle >= 0x0013\<close>. Each assignment evaluates its
  right-hand side first and then stores; an exception leaves the earlier stores in
  place. \<open>now\<close> is what \<^verbatim>\<open>datetime.now().astimezone()\<close> reads.
\<close>

definition process_data :: "timestamp \<Rightarrow> byte list \<Rightarrow> session \<Rightarrow> error option \<times> session" where
  "process_data now data s =
     (case unpack_H (slice 3 5 data) of Inl e \<Rightarrow> (Some e, s) | Inr t \<Rightarrow>
     (case store_sensor ''temperature'' (VFloat (of_nat t / 10)) s of Inl e \<Rightarrow> (Some e, s) | Inr s1 \<Rightarrow>
     (case unpack_B (slice 6 7 data) of Inl e \<Rightarrow> (Some e, s1) | Inr h \<Rightarrow>
     (case store_sensor ''humidity'' (VInt (int h)) s1 of Inl e \<Rightarrow> (Some e, s1) | Inr s2 \<Rightarrow>
     (case unpack_H (slice 8 10 data) of Inl e \<Rightarrow> (Some e, s2) | Inr p \<Rightarrow>
     (case store_sensor ''pressure'' (VFloat (of_nat p / 10)) s2 of Inl e \<Rightarrow> (Some e, s2) | Inr s3 \<Rightarrow>
     (case store_sensor ''last'' (VTime now) s3 of Inl e \<Rightarrow> (Some e, s3) | Inr s4 \<Rightarrow>
        (None, s4))))))))"

text \<open>
  \<^verbatim>\<open>notification_handler(sender, data)\<close>: the first component of the result is the
  exception raised to the caller (\<open>None\<close> when the handler returns). \<open>handle\<close> is
  \<^verbatim>\<open>sender.handle\<close>.
\<close>

definition notification_handler ::
  "timestamp \<Rightarrow> nat \<Rightarrow> byte list \<Rightarrow> session \<Rightarrow> error option \<times> session" where
  "notification_handler now handle data s =
     (let s0 = s\<lparr>command_data := Some data\<rparr> in
      case (if handle \<ge> 0x0013 then process_data now data s0 else (None, s0)) of
        (Some e, s1) \<Rightarrow> (Some e, s1)
      | (None, s1) \<Rightarrow>
          (case event s1 of
             None \<Rightarrow> (None, s1)
           | Some _ \<Rightarrow> (None, s1\<lparr>event := Some True\<rparr>)))"

text \<open>What a reader of the session finds under a sensor key.\<close>

definition reading :: "session \<Rightarrow> string \<Rightarrow> pyvalue option" where
  "reading s key = (case bardevice s of None \<Rightarrow> None | Some d \<Rightarrow> sensors d key)"

section \<open>The recovery wrapper and the subscription phase\<close>

text \<open>An awaited call on the transport: it is logged, and raises what the transport says.\<close>

definition await :: "transport \<Rightarrow> call \<Rightarrow> session \<Rightarrow> error option \<times> session" where
  "await env c s = (outcome env (calls s) c, s\<lparr>calls := calls s @ [c]\<rparr>)"

text \<open>
  \<^verbatim>\<open>disconnect_on_missing_services(func)\<close>. The handler of the two missing-service
  exceptions starts with \<^verbatim>\<open>logger.warning(...)\<close>, and the module binds no name
  \<^verbatim>\<open>logger\<close> (its logger is \<^verbatim>\<open>_LOGGER\<close>): the handler raises \<^verbatim>\<open>NameError\<close> there, before
  \<^verbatim>\<open>clear_cache\<close> and \<^verbatim>\<open>disconnect\<close>. Every other exception passes through.
\<close>

definition disconnect_on_missing_services ::
  "(session \<Rightarrow> (error + 'a) \<times> session) \<Rightarrow> session \<Rightarrow> (error + 'a) \<times> session" where
  "disconnect_on_missing_services func s =
     (case func s of
        (Inl e, s') \<Rightarrow>
          if e = BleakServiceMissing \<or> e = BleakCharacteristicMissing
          then (Inl NameError, s')
          else (Inl e, s')
      | (Inr v, s') \<Rightarrow> (Inr v, s'))"

text \<open>
  One \<^verbatim>\<open>try: await client.start_notify(uuid, self.notification_handler)\<close> with its
  \<^verbatim>\<open>except Exception\<close>, which logs and goes on.
\<close>

definition try_start_notify :: "transport \<Rightarrow> string \<Rightarrow> session \<Rightarrow> error option \<times> session" where
  "try_start_notify env uuid s =
     (case await env (StartNotify uuid) s of
        (Some e, s') \<Rightarrow> if is_Exception e then (None, s') else (Some e, s')
      | (None, s') \<Rightarrow> (None, s'))"

text \<open>The body of \<^verbatim>\<open>_get_bar228(client, device)\<close>, before the decorator.\<close>

definition get_bar228_body ::
  "transport \<Rightarrow> client \<Rightarrow> BAR228Device option \<Rightarrow> session
     \<Rightarrow> (error + BAR228Device option) \<times> session" where
  "get_bar228_body env cl device s =
     (let s0 = s\<lparr>event := Some False\<rparr> in
      case try_start_notify env BAR228_CHARACTERISTIC_UUID_WRITE1 s0 of (Some e, s1) \<Rightarrow> (Inl e, s1) | (None, s1) \<Rightarrow>
     (case try_start_notify env BAR228_CHARACTERISTIC_UUID_WRITE2 s1 of (Some e, s2) \<Rightarrow> (Inl e, s2) | (None, s2) \<Rightarrow>
     (case try_start_notify env BAR228_CHARACTERISTIC_UUID_WRITE3 s2 of (Some e, s3) \<Rightarrow> (Inl e, s3) | (None, s3) \<Rightarrow>
     (case try_start_notify env BAR228_CHARACTERISTIC_UUID_WRITE4 s3 of (Some e, s4) \<Rightarrow> (Inl e, s4) | (None, s4) \<Rightarrow>
     (case try_start_notify env BAR228_CHARACTERISTIC_UUID_WRITE5 s4 of (Some e, s5) \<Rightarrow> (Inl e, s5) | (None, s5) \<Rightarrow>
        (Inr device, s5))))))"

text \<open>\<^verbatim>\<open>_get_bar228\<close> as the class holds it: the body under the decorator.\<close>

definition get_bar228 ::
  "transport \<Rightarrow> client \<Rightarrow> BAR228Device option \<Rightarrow> session
     \<Rightarrow> (error + BAR228Device option) \<times> session" where
  "get_bar228 env cl device = disconnect_on_missing_services (get_bar228_body env cl device)"

section \<open>The update entry point\<close>

text \<open>\<^verbatim>\<open>str.startswith\<close>.\<close>

definition startswith :: "string \<Rightarrow> string \<Rightarrow> bool" where
  "startswith s p = (take (length p) s = p)"

text \<open>
  The record the \<^verbatim>\<open>else\<close> branch of the first \<^verbatim>\<open>if\<close> of \<^verbatim>\<open>update_device\<close> builds:
  a default \<^verbatim>\<open>BAR228Device\<close> with the name and address of the advertisement and the
  four sensor keys set to \<^verbatim>\<open>None\<close>.
\<close>

definition created_device :: "BLEDevice \<Rightarrow> BAR228Device" where
  "created_device ble =
     new_BAR228Device
       \<lparr>name := ble_name ble, address := ble_address ble,
        sensors := [''temperature'' \<mapsto> VNone, ''humidity'' \<mapsto> VNone,
                    ''pressure'' \<mapsto> VNone, ''last'' \<mapsto> VNone]\<rparr>"

text \<open>The first \<^verbatim>\<open>if\<close> of \<^verbatim>\<open>update_device\<close>: reuse the device record, or make it.\<close>

definition ensure_device :: "BLEDevice \<Rightarrow> session \<Rightarrow> session" where
  "ensure_device ble s =
     (case bardevice s of
        Some d \<Rightarrow> s
      | None \<Rightarrow> s\<lparr>bardevice := Some (created_device ble), command_data := None\<rparr>)"

text \<open>
  \<^verbatim>\<open>self._bardevice = await self._get_bar228(self._bleclient, self._bardevice)\<close>
  followed by the final \<^verbatim>\<open>return self._bardevice\<close>.
\<close>

definition subscribe_and_return ::
  "transport \<Rightarrow> client \<Rightarrow> session \<Rightarrow> (error + BAR228Device option) \<times> session" where
  "subscribe_and_return env cl s =
     (case get_bar228 env cl (bardevice s) s of
        (Inl e, s') \<Rightarrow> (Inl e, s')
      | (Inr d, s') \<Rightarrow> (Inr d, s'\<lparr>bardevice := d\<rparr>))"

definition update_device ::
  "transport \<Rightarrow> BLEDevice \<Rightarrow> session \<Rightarrow> (error + BAR228Device option) \<times> session" where
  "update_device env ble s =
     (let s1 = ensure_device ble s in
      case bleclient s1 of
        Some cl \<Rightarrow>
          (let s2 = s1\<lparr>calls := calls s1 @ [IsConnected]\<rparr> in
           if \<not> is_connected env (calls s1) then
             (case await env Connect s2 of
                (Some e, s3) \<Rightarrow> (Inl e, s3)
              | (None, s3) \<Rightarrow> subscribe_and_return env cl s3)
           else (Inr (bardevice s2), s2))
      | None \<Rightarrow>
          (case await env (EstablishConnection (ble_address ble)) s1 of
             (Some e, s2) \<Rightarrow> (Inl e, s2)
           | (None, s2) \<Rightarrow>
               (let s3 = s2\<lparr>bleclient := Some (Client (ble_address ble))\<rparr> in
                if startswith (ble_name ble) ''IDTBA228''
                then subscribe_and_return env (Client (ble_address ble)) s3
                else (Inr (bardevice s3), s3))))"

section \<open>Vocabulary of the properties\<close>

text \<open>The five characteristics of the subscription phase, in the order of the source.\<close>

definition notify_uuids :: "string list" where
  "notify_uuids =
     [BAR228_CHARACTERISTIC_UUID_WRITE1, BAR228_CHARACTERISTIC_UUID_WRITE2,
      BAR228_CHARACTERISTIC_UUID_WRITE3, BAR228_CHARACTERISTIC_UUID_WRITE4,
      BAR228_CHARACTERISTIC_UUID_WRITE5]"

text \<open>A transport under which the task running the coroutine is never cancelled.\<close>

definition never_cancelled :: "transport \<Rightarrow> bool" where
  "never_cancelled env = (\<forall>h c. outcome env h c \<noteq> Some CancelledError)"

text \<open>How many \<^verbatim>\<open>start_notify\<close>, \<^verbatim>\<open>clear_cache\<close> and \<^verbatim>\<open>disconnect\<close> calls a log holds.\<close>

fun is_StartNotify :: "call \<Rightarrow> bool" where
  "is_StartNotify (StartNotify uuid) = True"
| "is_StartNotify _ = False"

definition subscribe_calls :: "call list \<Rightarrow> nat" where
  "subscribe_calls cs = length (filter is_StartNotify cs)"

definition clear_cache_calls :: "call list \<Rightarrow> nat" where
  "clear_cache_calls cs = count_list cs ClearCache"

definition disconnect_calls :: "call list \<Rightarrow> nat" where
  "disconnect_calls cs = count_list cs Disconnect"

text \<open>The fixed keys of a reading, and a device record that holds all of them.\<close>

definition sensor_keys :: "string list" where
  "sensor_keys = [''temperature'', ''humidity'', ''pressure'', ''last'']"

definition has_all_keys :: "BAR228Device \<Rightarrow> bool" where
  "has_all_keys d = list_all (\<lambda>k. sensors d k \<noteq> None) sensor_keys"

definition all_unset :: "BAR228Device \<Rightarrow> bool" where
  "all_unset d = list_all (\<lambda>k. sensors d k = Some VNone) sensor_keys"

text \<open>
  The sessions a run can be in: the constructor's, and what an update or a
  notification makes of one, whatever the transport does and whether or not the
  operation raises.
\<close>

inductive reachable :: "session \<Rightarrow> bool" where
  constructed: "reachable (init_session elev metric volt)"
| updated: "reachable s \<Longrightarrow> reachable (snd (update_device env ble s))"
| notified: "reachable s \<Longrightarrow> reachable (snd (notification_handler now handle data s))"

text \<open>The invariant of the reading: a device record, once made, holds every key.\<close>

definition keys_kept :: "session \<Rightarrow> bool" where
  "keys_kept s = (case bardevice s of None \<Rightarrow> True | Some d \<Rightarrow> has_all_keys d)"

subsection \<open>Concrete runs\<close>

text \<open>A transport on which every call succeeds and the client stays connected.\<close>

definition quiet_transport :: transport where
  "quiet_transport = \<lparr>outcome = (\<lambda>h c. None), is_connected = (\<lambda>h. True)\<rparr>"

text \<open>A transport whose first characteristic is missing from the GATT table.\<close>

definition missing_service_transport :: transport where
  "missing_service_transport =
     \<lparr>outcome = (\<lambda>h c. if c = StartNotify BAR228_CHARACTERISTIC_UUID_WRITE1
                          then Some BleakServiceMissing else None),
      is_connected = (\<lambda>h. True)\<rparr>"

definition station_ble :: BLEDevice where
  "station_ble = \<lparr>ble_name = ''IDTBA228_1234'', ble_address = ''C4:7C:8D:00:00:01''\<rparr>"

definition other_ble :: BLEDevice where
  "other_ble = \<lparr>ble_name = ''Thermo'', ble_address = ''C4:7C:8D:00:00:02''\<rparr>"

text \<open>The constructor with its defaults, and the session after a first update.\<close>

definition fresh_session :: session where
  "fresh_session = init_session None True (12 / 5, 16 / 5)"

definition ready_session :: session where
  "ready_session = snd (update_device quiet_transport station_ble fresh_session)"

text \<open>
  The session of a first update at the point where it enters the subscription phase:
  the device record made, the connection established.
\<close>

definition connected_session :: session where
  "connected_session =
     fresh_session
       \<lparr>bardevice := Some (created_device station_ble),
        bleclient := Some (Client ''C4:7C:8D:00:00:01''),
        calls := [EstablishConnection ''C4:7C:8D:00:00:01'']\<rparr>"

section \<open>Facts about the decoder\<close>

lemma length_slice: "length (slice i j xs) = min (j - i) (length xs - i)"
  by (simp add: slice_def)

lemma nth_slice: "k < j - i \<Longrightarrow> i + k < length xs \<Longrightarrow> slice i j xs ! k = xs ! (i + k)"
  by (simp add: slice_def)

lemma unpack_H_length:
  "unpack_H xs =
     (if length xs = 2 then Inr (unat (xs ! 0) + 256 * unat (xs ! 1)) else Inl StructError)"
  by (induction xs rule: unpack_H.induct) simp_all

lemma unpack_B_length:
  "unpack_B xs = (if length xs = 1 then Inr (unat (xs ! 0)) else Inl StructError)"
  by (induction xs rule: unpack_B.induct) simp_all

lemma unpack_H_slice:
  "unpack_H (slice i (i + 2) xs) =
     (if i + 2 \<le> length xs then Inr (unat (xs ! i) + 256 * unat (xs ! (i + 1)))
      else Inl StructError)"
  by (auto simp add: unpack_H_length length_slice nth_slice)

lemma unpack_B_slice:
  "unpack_B (slice i (i + 1) xs) =
     (if i + 1 \<le> length xs then Inr (unat (xs ! i)) else Inl StructError)"
  by (auto simp add: unpack_B_length length_slice nth_slice)

lemma unpack_temperature:
  "unpack_H (slice 3 5 xs) =
     (if 5 \<le> length xs then Inr (unat (xs ! 3) + 256 * unat (xs ! 4)) else Inl StructError)"
  using unpack_H_slice [of 3 xs] by simp

lemma unpack_humidity:
  "unpack_B (slice 6 7 xs) = (if 7 \<le> length xs then Inr (unat (xs ! 6)) else Inl StructError)"
  using unpack_B_slice [of 6 xs] by simp

lemma unpack_pressure:
  "unpack_H (slice 8 10 xs) =
     (if 10 \<le> length xs then Inr (unat (xs ! 8) + 256 * unat (xs ! 9)) else Inl StructError)"
  using unpack_H_slice [of 8 xs] by simp

lemmas unpack_fields = unpack_temperature unpack_humidity unpack_pressure

text \<open>Without a device record the first store fails, if the first unpack did not.\<close>

lemma process_data_no_device:
  "bardevice s = None \<Longrightarrow>
   process_data now data s =
     (Some (if 5 \<le> length data then AttributeError else StructError), s)"
  by (simp add: process_data_def store_sensor_def unpack_fields)

text \<open>With a device record, the length of the payload decides how far the body gets.\<close>

lemma process_data_device:
  assumes "bardevice s = Some d"
  shows "process_data now data s =
     (if length data < 5 then (Some StructError, s)
      else if length data < 7 then
        (Some StructError,
         s\<lparr>bardevice := Some (d\<lparr>sensors := (sensors d)
            (''temperature'' \<mapsto> VFloat (of_nat (unat (data ! 3) + 256 * unat (data ! 4)) / 10))\<rparr>)\<rparr>)
      else if length data < 10 then
        (Some StructError,
         s\<lparr>bardevice := Some (d\<lparr>sensors := (sensors d)
            (''temperature'' \<mapsto> VFloat (of_nat (unat (data ! 3) + 256 * unat (data ! 4)) / 10),
             ''humidity'' \<mapsto> VInt (int (unat (data ! 6))))\<rparr>)\<rparr>)
      else
        (None,
         s\<lparr>bardevice := Some (d\<lparr>sensors := (sensors d)
            (''temperature'' \<mapsto> VFloat (of_nat (unat (data ! 3) + 256 * unat (data ! 4)) / 10),
             ''humidity'' \<mapsto> VInt (int (unat (data ! 6))),
             ''pressure'' \<mapsto> VFloat (of_nat (unat (data ! 8) + 256 * unat (data ! 9)) / 10),
             ''last'' \<mapsto> VTime now)\<rparr>)\<rparr>))"
  using assms by (simp add: process_data_def store_sensor_def unpack_fields)

lemma process_data_event: "event (snd (process_data now data s)) = event s"
  by (cases "bardevice s") (simp_all add: process_data_no_device process_data_device)


lemma handler_below_threshold:
  "handle < 0x0013 \<Longrightarrow>
   notification_handler now handle data s =
     (None, s\<lparr>command_data := Some data,
              event := (case event s of None \<Rightarrow> None | Some b \<Rightarrow> Some True)\<rparr>)"
  by (simp add: notification_handler_def split: option.splits)

lemma handler_telemetry:
  assumes "0x0013 \<le> handle"
  shows "notification_handler now handle data s =
     (case process_data now data (s\<lparr>command_data := Some data\<rparr>) of
        (Some e, s1) \<Rightarrow> (Some e, s1)
      | (None, s1) \<Rightarrow>
          (None, s1\<lparr>event := (case event s of None \<Rightarrow> None | Some b \<Rightarrow> Some True)\<rparr>))"
proof -
  let ?s0 = "s\<lparr>command_data := Some data\<rparr>"
  obtain r s1 where p: "process_data now data ?s0 = (r, s1)"
    by (cases "process_data now data ?s0")
  have "event s1 = event s"
    using process_data_event [of now data ?s0] p by simp
  with assms p show ?thesis
    by (simp add: notification_handler_def split: option.splits)
qed

lemma handler_event:
  "event (snd (notification_handler now handle data s)) =
     (if fst (notification_handler now handle data s) = None
      then (case event s of None \<Rightarrow> None | Some b \<Rightarrow> Some True)
      else event s)"
proof (cases "handle < 0x0013")
  case True
  then show ?thesis by (simp add: handler_below_threshold)
next
  case False
  let ?s0 = "s\<lparr>command_data := Some data\<rparr>"
  obtain r s1 where p: "process_data now data ?s0 = (r, s1)"
    by (cases "process_data now data ?s0")
  have "event s1 = event s"
    using process_data_event [of now data ?s0] p by simp
  with False p show ?thesis
    by (simp add: handler_telemetry split: option.splits)
qed




lemma reading_command_data [simp]: "reading (s\<lparr>command_data := c\<rparr>) key = reading s key"
  by (simp add: reading_def)

section \<open>Facts about the subscription phase\<close>

lemma is_Exception_iff: "is_Exception e \<longleftrightarrow> e \<noteq> CancelledError"
  by (cases e) simp_all

lemma try_start_notify_eq:
  "try_start_notify env uuid s =
     (if outcome env (calls s) (StartNotify uuid) = Some CancelledError
      then Some CancelledError else None,
      s\<lparr>calls := calls s @ [StartNotify uuid]\<rparr>)"
  by (simp add: try_start_notify_def await_def is_Exception_iff split: option.splits)

lemma get_bar228_body_never_cancelled:
  assumes "never_cancelled env"
  shows "get_bar228_body env cl device s =
           (Inr device, s\<lparr>event := Some False, calls := calls s @ map StartNotify notify_uuids\<rparr>)"
  using assms
  by (simp add: get_bar228_body_def try_start_notify_eq never_cancelled_def notify_uuids_def)

lemma get_bar228_body_result:
  "fst (get_bar228_body env cl device s) = Inr device
   \<or> fst (get_bar228_body env cl device s) = Inl CancelledError"
  by (simp add: get_bar228_body_def try_start_notify_eq)

lemma get_bar228_body_bardevice:
  "bardevice (snd (get_bar228_body env cl device s)) = bardevice s"
  by (simp add: get_bar228_body_def try_start_notify_eq)

text \<open>No exception of the body is one the wrapper handles: the wrapper is transparent.\<close>

lemma get_bar228_eq_body: "get_bar228 env cl device s = get_bar228_body env cl device s"
proof -
  obtain r s' where b: "get_bar228_body env cl device s = (r, s')"
    by (cases "get_bar228_body env cl device s")
  with get_bar228_body_result [of env cl device s]
  have "r = Inr device \<or> r = Inl CancelledError" by simp
  with b show ?thesis
    by (auto simp add: get_bar228_def disconnect_on_missing_services_def)
qed

lemma subscribe_and_return_bardevice:
  "bardevice (snd (subscribe_and_return env cl s)) = bardevice s"
proof -
  obtain r s' where b: "get_bar228_body env cl (bardevice s) s = (r, s')"
    by (cases "get_bar228_body env cl (bardevice s) s")
  with get_bar228_body_result [of env cl "bardevice s" s]
  have r: "r = Inr (bardevice s) \<or> r = Inl CancelledError" by simp
  from b get_bar228_body_bardevice [of env cl "bardevice s" s]
  have "bardevice s' = bardevice s" by simp
  with b r show ?thesis
    by (auto simp add: subscribe_and_return_def get_bar228_eq_body)
qed

lemma subscribe_and_return_result:
  "fst (subscribe_and_return env cl s) = Inr (bardevice s)
   \<or> fst (subscribe_and_return env cl s) = Inl CancelledError"
proof -
  obtain r s' where b: "get_bar228_body env cl (bardevice s) s = (r, s')"
    by (cases "get_bar228_body env cl (bardevice s) s")
  with get_bar228_body_result [of env cl "bardevice s" s]
  have r: "r = Inr (bardevice s) \<or> r = Inl CancelledError" by simp
  with b show ?thesis
    by (auto simp add: subscribe_and_return_def get_bar228_eq_body)
qed

lemma subscribe_and_return_never_cancelled:
  assumes "never_cancelled env"
  shows "subscribe_and_return env cl s =
           (Inr (bardevice s),
            s\<lparr>event := Some False, calls := calls s @ map StartNotify notify_uuids\<rparr>)"
  using assms
  by (simp add: subscribe_and_return_def get_bar228_eq_body get_bar228_body_never_cancelled)

section \<open>Facts about the update\<close>

lemma ensure_device_fields [simp]:
  "bleclient (ensure_device ble s) = bleclient s"
  "calls (ensure_device ble s) = calls s"
  "event (ensure_device ble s) = event s"
  by (simp_all add: ensure_device_def split: option.splits)

lemma ensure_device_bardevice:
  "bardevice (ensure_device ble s) =
     Some (case bardevice s of None \<Rightarrow> created_device ble | Some d \<Rightarrow> d)"
  by (simp add: ensure_device_def split: option.splits)

lemma update_device_bardevice:
  "bardevice (snd (update_device env ble s)) = bardevice (ensure_device ble s)"
  by (simp add: update_device_def await_def Let_def subscribe_and_return_bardevice
      split: option.splits)

lemma subscribe_and_return_Inr:
  "fst (subscribe_and_return env cl s) = Inr r \<Longrightarrow> r = bardevice s"
  using subscribe_and_return_result [of env cl s] by auto

lemma update_device_result:
  "fst (update_device env ble s) = Inr r \<Longrightarrow> r = bardevice (ensure_device ble s)"
  by (auto simp add: update_device_def await_def Let_def
      split: option.splits if_splits dest!: subscribe_and_return_Inr)

lemma update_device_connected:
  assumes "bardevice s = Some d" and "bleclient s = Some cl" and "is_connected env (calls s)"
  shows "update_device env ble s = (Inr (Some d), s\<lparr>calls := calls s @ [IsConnected]\<rparr>)"
  using assms by (simp add: update_device_def ensure_device_def)


lemma update_device_first_station:
  assumes "bleclient s = None" and "startswith (ble_name ble) ''IDTBA228''"
    and "outcome env (calls s) (EstablishConnection (ble_address ble)) = None"
    and "never_cancelled env"
  shows "update_device env ble s =
     (Inr (bardevice (ensure_device ble s)),
      (ensure_device ble s)\<lparr>bleclient := Some (Client (ble_address ble)),
         event := Some False,
         calls := calls s @ EstablishConnection (ble_address ble) # map StartNotify notify_uuids\<rparr>)"
  using assms
  by (simp add: update_device_def await_def Let_def subscribe_and_return_never_cancelled)

section \<open>The invariant of the reading\<close>

lemma has_all_keys_created: "has_all_keys (created_device ble)"
  by (simp add: has_all_keys_def sensor_keys_def created_device_def)

lemma all_unset_created: "all_unset (created_device ble)"
  by (simp add: all_unset_def sensor_keys_def created_device_def)

lemma has_all_keys_store:
  "has_all_keys d \<Longrightarrow> has_all_keys (d\<lparr>sensors := (sensors d)(key \<mapsto> v)\<rparr>)"
  by (simp add: has_all_keys_def sensor_keys_def)

lemma keys_kept_process_data:
  assumes "keys_kept s"
  shows "keys_kept (snd (process_data now data s))"
proof (cases "bardevice s")
  case None
  with assms show ?thesis by (simp add: process_data_no_device)
next
  case (Some d)
  with assms have "has_all_keys d" by (simp add: keys_kept_def)
  with Some show ?thesis
    by (simp add: process_data_device [OF Some] keys_kept_def has_all_keys_def sensor_keys_def)
qed

lemma handler_bardevice:
  "bardevice (snd (notification_handler now handle data s)) =
     (if handle < 0x0013 then bardevice s
      else bardevice (snd (process_data now data (s\<lparr>command_data := Some data\<rparr>))))"
proof (cases "handle < 0x0013")
  case True
  then show ?thesis by (simp add: handler_below_threshold)
next
  case False
  then show ?thesis
    by (cases "process_data now data (s\<lparr>command_data := Some data\<rparr>)")
       (simp add: handler_telemetry split: option.splits)
qed

lemma keys_kept_handler:
  assumes "keys_kept s"
  shows "keys_kept (snd (notification_handler now handle data s))"
proof -
  let ?s0 = "s\<lparr>command_data := Some data\<rparr>"
  have "keys_kept ?s0" using assms by (simp add: keys_kept_def)
  then have "keys_kept (snd (process_data now data ?s0))" by (rule keys_kept_process_data)
  with assms show ?thesis
    by (simp add: keys_kept_def handler_bardevice)
qed

lemma keys_kept_ensure: "keys_kept s \<Longrightarrow> keys_kept (ensure_device ble s)"
  by (simp add: keys_kept_def ensure_device_def has_all_keys_created split: option.splits)

lemma keys_kept_update: "keys_kept s \<Longrightarrow> keys_kept (snd (update_device env ble s))"
  using keys_kept_ensure [of s ble]
  by (simp add: keys_kept_def update_device_bardevice)

lemma reachable_keys_kept: "reachable s \<Longrightarrow> keys_kept s"
proof (induction rule: reachable.induct)
  case (constructed elev metric volt)
  show ?case by (simp add: keys_kept_def init_session_def)
next
  case (updated s env ble)
  then show ?case by (simp add: keys_kept_update)
next
  case (notified s now handle data)
  then show ?case by (simp add: keys_kept_handler)
qed


section \<open>Facts about the log\<close>

lemma subscribe_calls_append:
  "subscribe_calls (cs @ ds) = subscribe_calls cs + subscribe_calls ds"
  by (simp add: subscribe_calls_def)

lemma subscribe_calls_StartNotify: "subscribe_calls (map StartNotify us) = length us"
  by (induction us) (simp_all add: subscribe_calls_def)

lemma clear_cache_calls_append:
  "clear_cache_calls (cs @ ds) = clear_cache_calls cs + clear_cache_calls ds"
  by (induction cs) (simp_all add: clear_cache_calls_def)

lemma disconnect_calls_append:
  "disconnect_calls (cs @ ds) = disconnect_calls cs + disconnect_calls ds"
  by (induction cs) (simp_all add: disconnect_calls_def)

lemma clear_cache_calls_StartNotify: "clear_cache_calls (map StartNotify us) = 0"
  by (induction us) (simp_all add: clear_cache_calls_def)

lemma disconnect_calls_StartNotify: "disconnect_calls (map StartNotify us) = 0"
  by (induction us) (simp_all add: disconnect_calls_def)

lemmas log_counts =
  subscribe_calls_append subscribe_calls_StartNotify clear_cache_calls_append
  disconnect_calls_append clear_cache_calls_StartNotify disconnect_calls_StartNotify

lemma length_notify_uuids: "length notify_uuids = 5"
  by (simp add: notify_uuids_def)

lemma never_cancelled_quiet: "never_cancelled quiet_transport"
  by (simp add: never_cancelled_def quiet_transport_def)

lemma never_cancelled_missing_service: "never_cancelled missing_service_transport"
  by (simp add: never_cancelled_def missing_service_transport_def)

lemmas run_defs =
  update_device_def ensure_device_def await_def subscribe_and_return_def get_bar228_def
  disconnect_on_missing_services_def get_bar228_body_def try_start_notify_def
  startswith_def init_session_def

lemma ready_session_eq:
  "ready_session =
     \<lparr>is_metric = True, elevation = None, voltage = (12 / 5, 16 / 5), command_data = None,
      bardevice = Some (created_device station_ble),
      bleclient = Some (Client ''C4:7C:8D:00:00:01''), event = Some False,
      calls = EstablishConnection ''C4:7C:8D:00:00:01'' # map StartNotify notify_uuids\<rparr>"
  by (simp add: ready_session_def fresh_session_def quiet_transport_def station_ble_def
      notify_uuids_def run_defs)

lemma created_device_sensors:
  "sensors (created_device ble) =
     [''temperature'' \<mapsto> VNone, ''humidity'' \<mapsto> VNone, ''pressure'' \<mapsto> VNone,
      ''last'' \<mapsto> VNone]"
  by (simp add: created_device_def)

section \<open>The claims about the notification handler\<close>

text \<open>
  C1. For every telemetry notification (handle at least 0x0013, payload of at least 10
  bytes) handled by a session that has its device record, the handler returns and the
  stored temperature is the little-endian unsigned 16-bit integer of bytes 3 and 4
  divided by 10, the stored humidity is the byte at offset 6, and the stored pressure
  is the little-endian unsigned 16-bit integer of bytes 8 and 9 divided by 10.
\<close>

theorem decode_telemetry:
  assumes "0x0013 \<le> handle" and "10 \<le> length data" and "bardevice s = Some d"
  shows "fst (notification_handler now handle data s) = None
       \<and> reading (snd (notification_handler now handle data s)) ''temperature''
           = Some (VFloat (of_nat (unat (data ! 3) + 256 * unat (data ! 4)) / 10))
       \<and> reading (snd (notification_handler now handle data s)) ''humidity''
           = Some (VInt (int (unat (data ! 6))))
       \<and> reading (snd (notification_handler now handle data s)) ''pressure''
           = Some (VFloat (of_nat (unat (data ! 8) + 256 * unat (data ! 9)) / 10))"
  using assms
  by (simp add: handler_telemetry process_data_device reading_def)

theorem decode_telemetry_witness:
  "(0x0013 :: nat) \<le> 0x0013
   \<and> 10 \<le> length [0, 0, 0, 215, 0, 0, 45, 0, 9, 8, 1 :: byte]
   \<and> bardevice ready_session = Some (created_device station_ble)
   \<and> fst (notification_handler 1700000000 0x0013 [0, 0, 0, 215, 0, 0, 45, 0, 9, 8, 1]
        ready_session) = None
   \<and> reading (snd (notification_handler 1700000000 0x0013 [0, 0, 0, 215, 0, 0, 45, 0, 9, 8, 1]
        ready_session)) ''temperature'' = Some (VFloat (43 / 2))
   \<and> reading (snd (notification_handler 1700000000 0x0013 [0, 0, 0, 215, 0, 0, 45, 0, 9, 8, 1]
        ready_session)) ''humidity'' = Some (VInt 45)
   \<and> reading (snd (notification_handler 1700000000 0x0013 [0, 0, 0, 215, 0, 0, 45, 0, 9, 8, 1]
        ready_session)) ''pressure'' = Some (VFloat (2057 / 10))"
  using decode_telemetry [of "0x0013" "[0, 0, 0, 215, 0, 0, 45, 0, 9, 8, 1]" ready_session
      "created_device station_ble" 1700000000]
  by (simp add: ready_session_eq)




text \<open>
  C6. For every notification whose handle is strictly below 0x0013, whatever its
  payload, the handler returns and leaves the device record, and with it every field
  of the reading (temperature, humidity, pressure, last), unchanged.
\<close>

theorem below_threshold_keeps_reading:
  assumes "handle < 0x0013"
  shows "fst (notification_handler now handle data s) = None
       \<and> bardevice (snd (notification_handler now handle data s)) = bardevice s
       \<and> reading (snd (notification_handler now handle data s)) ''temperature''
           = reading s ''temperature''
       \<and> reading (snd (notification_handler now handle data s)) ''humidity''
           = reading s ''humidity''
       \<and> reading (snd (notification_handler now handle data s)) ''pressure''
           = reading s ''pressure''
       \<and> reading (snd (notification_handler now handle data s)) ''last'' = reading s ''last''"
  using assms by (simp add: handler_below_threshold reading_def)

theorem below_threshold_keeps_reading_witness:
  "(0x0012 :: nat) < 0x0013
   \<and> fst (notification_handler 1700000000 0x0012 [0, 0, 0, 215, 0, 0, 45, 0, 9, 8, 1]
        ready_session) = None
   \<and> bardevice (snd (notification_handler 1700000000 0x0012 [0, 0, 0, 215, 0, 0, 45, 0, 9, 8, 1]
        ready_session)) = Some (created_device station_ble)
   \<and> reading (snd (notification_handler 1700000000 0x0012 [0, 0, 0, 215, 0, 0, 45, 0, 9, 8, 1]
        ready_session)) ''temperature'' = Some VNone
   \<and> reading (snd (notification_handler 1700000000 0x0012 [0, 0, 0, 215, 0, 0, 45, 0, 9, 8, 1]
        ready_session)) ''last'' = Some VNone"
  using below_threshold_keeps_reading [of "0x0012" 1700000000
      "[0, 0, 0, 215, 0, 0, 45, 0, 9, 8, 1]" ready_session]
  by (simp add: ready_session_eq reading_def created_device_sensors)

text \<open>
  C9, as stated, fails: a telemetry notification of four bytes, delivered while the
  event exists and is not set, raises before the handler reaches the event, which
  stays unset.
\<close>

theorem event_not_set_counterexample:
  "event ready_session = Some False
   \<and> fst (notification_handler 1700000000 0x0013 [1, 2, 3, 4] ready_session) = Some StructError
   \<and> event (snd (notification_handler 1700000000 0x0013 [1, 2, 3, 4] ready_session))
       = Some False"
  by (simp add: ready_session_eq handler_telemetry process_data_device)

text \<open>
  C9, amended. For every notification delivered while the event exists that the
  handler processes without raising, the event is set after handling; this covers
  every notification whose handle is below 0x0013: it decodes nothing, the handler
  returns, and the event is set all the same, so a housekeeping notification
  releases the first-reading primitive.
\<close>

theorem handled_notification_sets_event:
  assumes "event s = Some b"
  shows "(fst (notification_handler now handle data s) = None \<longrightarrow>
            event (snd (notification_handler now handle data s)) = Some True)
       \<and> (handle < 0x0013 \<longrightarrow>
            fst (notification_handler now handle data s) = None
            \<and> event (snd (notification_handler now handle data s)) = Some True
            \<and> bardevice (snd (notification_handler now handle data s)) = bardevice s)"
  using assms by (simp add: handler_event handler_below_threshold)

theorem handled_notification_sets_event_witness:
  "event ready_session = Some False
   \<and> (0x0003 :: nat) < 0x0013
   \<and> fst (notification_handler 1700000000 0x0003 [1, 2] ready_session) = None
   \<and> event (snd (notification_handler 1700000000 0x0003 [1, 2] ready_session)) = Some True
   \<and> bardevice (snd (notification_handler 1700000000 0x0003 [1, 2] ready_session))
       = bardevice ready_session"
  using handled_notification_sets_event [of ready_session False 1700000000 "0x0003" "[1, 2]"]
  by (simp add: ready_session_eq)

section \<open>The claims about the subscription phase and the update\<close>

text \<open>
  C3, as stated, fails: with the first characteristic missing, the subscribe raises
  \<^verbatim>\<open>BleakServiceMissing\<close>, the \<^verbatim>\<open>except Exception\<close> around it swallows the
  error, and the wrapped operation returns the device: no \<^verbatim>\<open>clear_cache\<close>, no
  \<^verbatim>\<open>disconnect\<close>, nothing propagated.
\<close>

theorem missing_service_counterexample:
  "outcome missing_service_transport (calls connected_session)
       (StartNotify BAR228_CHARACTERISTIC_UUID_WRITE1) = Some BleakServiceMissing
   \<and> fst (get_bar228 missing_service_transport (Client ''C4:7C:8D:00:00:01'')
        (bardevice connected_session) connected_session)
       = Inr (Some (created_device station_ble))
   \<and> clear_cache_calls (calls (snd (get_bar228 missing_service_transport
        (Client ''C4:7C:8D:00:00:01'') (bardevice connected_session) connected_session))) = 0
   \<and> disconnect_calls (calls (snd (get_bar228 missing_service_transport
        (Client ''C4:7C:8D:00:00:01'') (bardevice connected_session) connected_session))) = 0"
  by (simp add: get_bar228_def disconnect_on_missing_services_def get_bar228_body_def
      try_start_notify_def await_def missing_service_transport_def connected_session_def
      fresh_session_def init_session_def clear_cache_calls_def disconnect_calls_def
      BAR228_CHARACTERISTIC_UUID_WRITE1_def BAR228_CHARACTERISTIC_UUID_WRITE2_def
      BAR228_CHARACTERISTIC_UUID_WRITE3_def BAR228_CHARACTERISTIC_UUID_WRITE4_def
      BAR228_CHARACTERISTIC_UUID_WRITE5_def)

text \<open>
  C3, amended. While the task is not cancelled, a subscribe that fails with
  ServiceMissing or CharacteristicMissing (as with any other exception) is caught
  where it is made: the subscription phase makes its five \<^verbatim>\<open>start_notify\<close> calls
  in order and nothing else, so no \<^verbatim>\<open>clear_cache\<close> and no \<^verbatim>\<open>disconnect\<close>, and
  the wrapped operation returns the device to its caller instead of raising.
\<close>

theorem subscribe_failures_swallowed:
  assumes "never_cancelled env"
  shows "get_bar228 env cl device s =
           (Inr device, s\<lparr>event := Some False, calls := calls s @ map StartNotify notify_uuids\<rparr>)
       \<and> subscribe_calls (calls (snd (get_bar228 env cl device s))) = subscribe_calls (calls s) + 5
       \<and> clear_cache_calls (calls (snd (get_bar228 env cl device s))) = clear_cache_calls (calls s)
       \<and> disconnect_calls (calls (snd (get_bar228 env cl device s))) = disconnect_calls (calls s)"
  using assms
  by (simp add: get_bar228_eq_body get_bar228_body_never_cancelled log_counts
      length_notify_uuids)

theorem subscribe_failures_swallowed_witness:
  "never_cancelled missing_service_transport
   \<and> outcome missing_service_transport (calls connected_session)
       (StartNotify BAR228_CHARACTERISTIC_UUID_WRITE1) = Some BleakServiceMissing
   \<and> get_bar228 missing_service_transport (Client ''C4:7C:8D:00:00:01'')
        (bardevice connected_session) connected_session
       = (Inr (Some (created_device station_ble)),
          connected_session\<lparr>event := Some False,
            calls := EstablishConnection ''C4:7C:8D:00:00:01'' # map StartNotify notify_uuids\<rparr>)
   \<and> subscribe_calls (calls (snd (get_bar228 missing_service_transport
        (Client ''C4:7C:8D:00:00:01'') (bardevice connected_session) connected_session))) = 5
   \<and> clear_cache_calls (calls (snd (get_bar228 missing_service_transport
        (Client ''C4:7C:8D:00:00:01'') (bardevice connected_session) connected_session))) = 0
   \<and> disconnect_calls (calls (snd (get_bar228 missing_service_transport
        (Client ''C4:7C:8D:00:00:01'') (bardevice connected_session) connected_session))) = 0"
proof -
  have nc: "never_cancelled missing_service_transport"
    by (rule never_cancelled_missing_service)
  have fails: "outcome missing_service_transport (calls connected_session)
       (StartNotify BAR228_CHARACTERISTIC_UUID_WRITE1) = Some BleakServiceMissing"
    by (simp add: missing_service_transport_def)
  have log: "calls connected_session = [EstablishConnection ''C4:7C:8D:00:00:01'']"
    and dev: "bardevice connected_session = Some (created_device station_ble)"
    by (simp_all add: connected_session_def)
  show ?thesis
    using subscribe_failures_swallowed [OF nc, of "Client ''C4:7C:8D:00:00:01''"
        "bardevice connected_session" connected_session] nc fails
    by (simp add: log dev subscribe_calls_def clear_cache_calls_def disconnect_calls_def
        notify_uuids_def)
qed

text \<open>
  C4, as stated, fails: the first update of a station whose name starts with
  \<^verbatim>\<open>IDTBA228\<close>, on a transport that delivers nothing, returns the device while no
  frame has been received: no notification data was ever stored, every value is
  still \<^verbatim>\<open>None\<close>, and the event made by the subscription phase is still unset.
\<close>

theorem first_update_counterexample:
  "startswith (ble_name station_ble) ''IDTBA228''
   \<and> fst (update_device quiet_transport station_ble fresh_session)
       = Inr (Some (created_device station_ble))
   \<and> all_unset (created_device station_ble)
   \<and> command_data (snd (update_device quiet_transport station_ble fresh_session)) = None
   \<and> event (snd (update_device quiet_transport station_ble fresh_session)) = Some False"
  by (simp add: run_defs quiet_transport_def station_ble_def fresh_session_def
      all_unset_def sensor_keys_def created_device_def)

text \<open>
  C4, amended. For every first-time update on a new address whose advertised name
  starts with \<^verbatim>\<open>IDTBA228\<close>, once the connection is established (and the task is not
  cancelled), the update makes the synchronization event, attempts the five
  subscriptions and completes without waiting on the event: it returns the new
  device record with all four values still \<^verbatim>\<open>None\<close> and leaves the event unset.
\<close>

theorem first_update_returns_without_waiting:
  assumes "bardevice s = None" and "bleclient s = None"
    and "startswith (ble_name ble) ''IDTBA228''"
    and "outcome env (calls s) (EstablishConnection (ble_address ble)) = None"
    and "never_cancelled env"
  shows "update_device env ble s =
           (Inr (Some (created_device ble)),
            s\<lparr>command_data := None, bardevice := Some (created_device ble),
              bleclient := Some (Client (ble_address ble)), event := Some False,
              calls := calls s @ EstablishConnection (ble_address ble)
                         # map StartNotify notify_uuids\<rparr>)
       \<and> all_unset (created_device ble)"
  using assms
  by (simp add: update_device_first_station ensure_device_def all_unset_created)

theorem first_update_returns_without_waiting_witness:
  "bardevice fresh_session = None \<and> bleclient fresh_session = None
   \<and> startswith (ble_name station_ble) ''IDTBA228''
   \<and> outcome quiet_transport (calls fresh_session)
        (EstablishConnection (ble_address station_ble)) = None
   \<and> never_cancelled quiet_transport
   \<and> update_device quiet_transport station_ble fresh_session
       = (Inr (Some (created_device station_ble)), ready_session)
   \<and> event ready_session = Some False
   \<and> all_unset (created_device station_ble)"
proof -
  have pre: "bardevice fresh_session = None" "bleclient fresh_session = None"
    "startswith (ble_name station_ble) ''IDTBA228''"
    "outcome quiet_transport (calls fresh_session)
        (EstablishConnection (ble_address station_ble)) = None"
    by (simp_all add: fresh_session_def init_session_def station_ble_def startswith_def
        quiet_transport_def)
  show ?thesis
    using first_update_returns_without_waiting [OF pre never_cancelled_quiet]
      pre never_cancelled_quiet
    by (simp add: ready_session_def)
qed

text \<open>
  C5. When the session already exists (device record and client) and the client
  reports connected, an update makes no \<^verbatim>\<open>start_notify\<close> call, returns the device
  record as it is, and changes nothing of the session but the log, which gains the one
  \<^verbatim>\<open>is_connected\<close> query.
\<close>

theorem update_connected_is_noop:
  assumes "bardevice s = Some d" and "bleclient s = Some cl" and "is_connected env (calls s)"
  shows "fst (update_device env ble s) = Inr (Some d)
       \<and> snd (update_device env ble s) = s\<lparr>calls := calls s @ [IsConnected]\<rparr>
       \<and> subscribe_calls (calls (snd (update_device env ble s))) = subscribe_calls (calls s)"
  using assms by (simp add: update_device_connected subscribe_calls_def)

theorem update_connected_is_noop_witness:
  "bardevice ready_session = Some (created_device station_ble)
   \<and> bleclient ready_session = Some (Client ''C4:7C:8D:00:00:01'')
   \<and> is_connected quiet_transport (calls ready_session)
   \<and> fst (update_device quiet_transport station_ble ready_session)
       = Inr (Some (created_device station_ble))
   \<and> snd (update_device quiet_transport station_ble ready_session)
       = ready_session\<lparr>calls := calls ready_session @ [IsConnected]\<rparr>
   \<and> subscribe_calls (calls (snd (update_device quiet_transport station_ble ready_session))) = 5"
proof -
  have pre: "bardevice ready_session = Some (created_device station_ble)"
    "bleclient ready_session = Some (Client ''C4:7C:8D:00:00:01'')"
    "is_connected quiet_transport (calls ready_session)"
    by (simp_all add: ready_session_eq quiet_transport_def)
  have "subscribe_calls (calls ready_session) = 5"
    by (simp add: ready_session_eq subscribe_calls_def notify_uuids_def)
  then show ?thesis
    using update_connected_is_noop [OF pre, of station_ble] pre
    by (simp add: subscribe_calls_def)
qed

text \<open>
  C7. Every update of a session a run can reach that returns, returns the device
  record the session holds, never \<^verbatim>\<open>None\<close>, and that record has all four keys
  (temperature, humidity, pressure, last); when this update made the record, each of
  the four values is \<^verbatim>\<open>None\<close>, which is not the number zero.
\<close>

theorem update_returns_full_reading:
  assumes "reachable s" and "fst (update_device env ble s) = Inr r"
  shows "r = bardevice (snd (update_device env ble s))
       \<and> (\<exists>d. r = Some d \<and> has_all_keys d \<and> (bardevice s = None \<longrightarrow> all_unset d))
       \<and> VNone \<noteq> VInt 0 \<and> VNone \<noteq> VFloat 0"
proof -
  have r: "r = bardevice (ensure_device ble s)"
    using assms(2) by (rule update_device_result)
  have "keys_kept (ensure_device ble s)"
    using assms(1) by (simp add: reachable_keys_kept keys_kept_ensure)
  with r show ?thesis
    by (auto simp add: update_device_bardevice keys_kept_def ensure_device_bardevice
        all_unset_created split: option.splits)
qed

theorem update_returns_full_reading_witness:
  "reachable fresh_session
   \<and> fst (update_device quiet_transport station_ble fresh_session)
       = Inr (Some (created_device station_ble))
   \<and> bardevice (snd (update_device quiet_transport station_ble fresh_session))
       = Some (created_device station_ble)
   \<and> has_all_keys (created_device station_ble)
   \<and> bardevice fresh_session = None
   \<and> all_unset (created_device station_ble)"
proof -
  have reach: "reachable fresh_session"
    unfolding fresh_session_def by (rule reachable.constructed)
  have ret: "fst (update_device quiet_transport station_ble fresh_session)
       = Inr (Some (created_device station_ble))"
    by (simp add: run_defs quiet_transport_def station_ble_def fresh_session_def)
  have new: "bardevice fresh_session = None"
    by (simp add: fresh_session_def init_session_def)
  show ?thesis
    using update_returns_full_reading [OF reach ret] reach ret new by auto
qed



text \<open>
  C10. An update of a session that has its device record leaves the record as it is:
  name, address and the sensors mapping are those of before, whatever the transport
  does, whichever advertisement is passed and whether or not the update raises. Only
  an update of a session without a record makes one, from the advertisement.
\<close>

theorem update_keeps_device_record:
  "bardevice (snd (update_device env ble s))
     = Some (case bardevice s of None \<Rightarrow> created_device ble | Some d \<Rightarrow> d)
   \<and> bardevice (snd (update_device env' ble' (snd (update_device env ble s))))
     = bardevice (snd (update_device env ble s))"
  by (simp add: update_device_bardevice ensure_device_bardevice)

theorem update_keeps_device_record_witness:
  "bardevice (snd (update_device quiet_transport station_ble fresh_session))
     = Some (created_device station_ble)
   \<and> bardevice (snd (update_device missing_service_transport other_ble
        (snd (update_device quiet_transport station_ble fresh_session))))
     = Some (created_device station_ble)
   \<and> name (created_device station_ble) = ''IDTBA228_1234''
   \<and> address (created_device station_ble) = ''C4:7C:8D:00:00:01''"
  using update_keeps_device_record [of quiet_transport station_ble fresh_session
      missing_service_transport other_ble]
  by (simp add: fresh_session_def init_session_def created_device_def station_ble_def)


end
